theory Spec2Isabelle
  imports Main "HOL-Library.Word"
begin

section \<open>The schema of the main game data file (empiresdat.py)\<close>

subsection \<open>Data model\<close>

text \<open>
  Modelled from the spec: the declaration of the enumeration \<open>GameEdition\<close>
  (openage.convert.dataformat.version\_detect) is not among the sources. Its six members
  below are the ones empiresdat.py names. The schema function compares the edition
  by identity only (\<open>is\<close>, \<open>is not\<close>, \<open>in\<close>, \<open>not in\<close>) and so accepts any
  object: \<open>OtherEdition k\<close> stands for an edition value that is none of the six.
\<close>

datatype GameEdition =
  ROR | AOC | HDEDITION | AOE2DE | AOE1DE | SWGB | OtherEdition nat

text \<open>
  \<open>game_version\<close> is a tuple whose component 0 is the edition; the schema function
  reads no other component, which is left polymorphic.
\<close>

type_synonym 'x game_version = "GameEdition \<times> 'x"

text \<open>The four read modes of member\_access that the file imports.\<close>

datatype member_access = READ | READ_EXPORT | READ_UNKNOWN | SKIP

text \<open>The members of \<open>MemberTypes\<close> (imported as \<open>StorageType\<close>) that the file uses.\<close>

datatype StorageType =
  INT_MEMBER | FLOAT_MEMBER | STRING_MEMBER | ID_MEMBER
  | ARRAY_INT | ARRAY_ID | ARRAY_CONTAINER

text \<open>The structure classes given as \<open>ref_type\<close>, named module\_Class.\<close>

datatype ref_type =
  terrain_TerrainRestriction | playercolor_PlayerColor | sound_Sound | graphic_Graphic
  | terrain_TileSize | terrain_Terrain | terrain_TerrainBorder
  | maps_MapInfo | maps_Map | tech_EffectBundle | unit_UnitLine | unit_UnitHeader
  | civ_Civ | research_Tech | tech_AgeTechTree | tech_BuildingConnection
  | tech_UnitConnection | tech_ResearchConnection | EmpiresDat

text \<open>
  The \<open>length\<close> argument of \<open>SubdataMember\<close> is a Python int (\<open>length=19\<close>) or a
  str naming a sibling member (\<open>length="sound_count"\<close>).
\<close>

datatype length_source = IntLength nat | NameLength string

text \<open>
  The second component of \<open>offset_to\<close> is a test on the offset read; the only one in
  the file is \<open>lambda o: o > 0\<close>.
\<close>

datatype offset_test = GreaterZero

fun offset_holds :: "offset_test \<Rightarrow> int \<Rightarrow> bool" where
  "offset_holds GreaterZero o_val = (o_val > 0)"

text \<open>
  \<open>SubdataMember(ref_type, length, passed_args, offset_to)\<close>; the arguments a call
  leaves out are the empty set and \<open>None\<close>.
\<close>

record SubdataMember =
  ref_type :: ref_type
  length_sub :: length_source
  passed_args :: "string set"
  offset_to :: "(string \<times> offset_test) option"

definition subdata :: "ref_type \<Rightarrow> length_source \<Rightarrow> SubdataMember" where
  "subdata r l = \<lparr>ref_type = r, length_sub = l, passed_args = {}, offset_to = None\<rparr>"

text \<open>
  The fourth component of a member tuple is a type string (\<open>"uint16_t"\<close>,
  \<open>"int32_t[terrain_restriction_count]"\<close>) or a \<open>SubdataMember\<close>.
\<close>

datatype member_type = TypeStr string | Subdata SubdataMember

type_synonym member = "member_access \<times> string option \<times> StorageType \<times> member_type"

definition access_of :: "member \<Rightarrow> member_access" where
  "access_of m = fst m"

definition name_of :: "member \<Rightarrow> string option" where
  "name_of m = fst (snd m)"

definition storage_of :: "member \<Rightarrow> StorageType" where
  "storage_of m = fst (snd (snd m))"

definition type_of :: "member \<Rightarrow> member_type" where
  "type_of m = snd (snd (snd m))"

subsection \<open>EmpiresDat.get\_data\_format\_members\<close>

text \<open>
  The function builds \<open>data_format\<close> by \<open>extend\<close> and \<open>append\<close> in program
  order; each conditional block contributes its members or nothing. The list is cut
  into consecutive blocks of source lines, appended in order:
  \<open>header_block\<close> 49 to 68, \<open>media_block\<close> 70 to 112, \<open>terrains_block\<close> 114 to 145,
  \<open>border_block\<close> 147 to 164, \<open>tile_block\<close> 166 to 181, \<open>search_map_block\<close> 183 to
  199, \<open>blob_block\<close> 201 to 216, \<open>map_effect_block\<close> 218 to 237, \<open>unit_civ_block\<close>
  239 to 280 and \<open>tech_tree_block\<close> 282 to 324. A test \<open>is X\<close> is \<open>e = X\<close>, and
  \<open>not in (ROR, AOE1DE)\<close> is \<open>e \<notin> {ROR, AOE1DE}\<close>.
\<close>

definition unknown_int32 :: member where
  "unknown_int32 = (READ_UNKNOWN, None, INT_MEMBER, TypeStr ''int32_t'')"

definition unknown_int8 :: member where
  "unknown_int8 = (READ_UNKNOWN, None, INT_MEMBER, TypeStr ''int8_t'')"

definition terrains_member :: "nat \<Rightarrow> member" where
  "terrains_member n =
     (READ_EXPORT, Some ''terrains'', ARRAY_CONTAINER, Subdata (subdata terrain_Terrain (IntLength n)))"

definition header_block :: "GameEdition \<Rightarrow> member list" where
  "header_block e =
     [(READ, Some ''versionstr'', STRING_MEMBER, TypeStr ''char[8]'')]
     @ (if e = SWGB then
          [(READ, Some ''civ_count_swgb'', INT_MEMBER, TypeStr ''uint16_t''),
           unknown_int32, unknown_int32, unknown_int32, unknown_int32]
        else [])
     @ [(READ, Some ''terrain_restriction_count'', INT_MEMBER, TypeStr ''uint16_t''),
        (READ, Some ''terrain_count'', INT_MEMBER, TypeStr ''uint16_t''),
        (READ, Some ''float_ptr_terrain_tables'', ARRAY_ID,
           TypeStr ''int32_t[terrain_restriction_count]'')]
     @ (if e \<notin> {ROR, AOE1DE} then
          [(READ, Some ''terrain_pass_graphics_ptrs'', ARRAY_ID,
              TypeStr ''int32_t[terrain_restriction_count]'')]
        else [])"

definition media_block :: "member list" where
  "media_block =
     [(READ, Some ''terrain_restrictions'', ARRAY_CONTAINER,
         Subdata \<lparr>ref_type = terrain_TerrainRestriction,
                  length_sub = NameLength ''terrain_restriction_count'',
                  passed_args = {''terrain_count''}, offset_to = None\<rparr>),
      (READ, Some ''player_color_count'', INT_MEMBER, TypeStr ''uint16_t''),
      (READ, Some ''player_colors'', ARRAY_CONTAINER,
         Subdata (subdata playercolor_PlayerColor (NameLength ''player_color_count''))),
      (READ_EXPORT, Some ''sound_count'', INT_MEMBER, TypeStr ''uint16_t''),
      (READ_EXPORT, Some ''sounds'', ARRAY_CONTAINER,
         Subdata (subdata sound_Sound (NameLength ''sound_count''))),
      (READ, Some ''graphic_count'', INT_MEMBER, TypeStr ''uint16_t''),
      (READ, Some ''graphic_ptrs'', ARRAY_ID, TypeStr ''uint32_t[graphic_count]''),
      (READ_EXPORT, Some ''graphics'', ARRAY_CONTAINER,
         Subdata \<lparr>ref_type = graphic_Graphic,
                  length_sub = NameLength ''graphic_count'',
                  passed_args = {}, offset_to = Some (''graphic_ptrs'', GreaterZero)\<rparr>),
      (SKIP, Some ''virt_function_ptr'', ID_MEMBER, TypeStr ''int32_t''),
      (SKIP, Some ''map_pointer'', ID_MEMBER, TypeStr ''int32_t''),
      (SKIP, Some ''map_width'', INT_MEMBER, TypeStr ''int32_t''),
      (SKIP, Some ''map_height'', INT_MEMBER, TypeStr ''int32_t''),
      (SKIP, Some ''world_width'', INT_MEMBER, TypeStr ''int32_t''),
      (SKIP, Some ''world_height'', INT_MEMBER, TypeStr ''int32_t''),
      (READ_EXPORT, Some ''tile_sizes'', ARRAY_CONTAINER,
         Subdata (subdata terrain_TileSize (IntLength 19))),
      (SKIP, Some ''padding1'', INT_MEMBER, TypeStr ''int16_t'')]"

definition terrains_block :: "GameEdition \<Rightarrow> member list" where
  "terrains_block e =
     (if e = SWGB then [terrains_member 55]
      else if e = AOE2DE then [terrains_member 200]
      else if e = AOE1DE then [terrains_member 96]
      else if e = HDEDITION then [terrains_member 100]
      else if e = AOC then [terrains_member 42]
      else [terrains_member 32])"

definition border_block :: "GameEdition \<Rightarrow> member list" where
  "border_block e =
     (if e \<noteq> AOE2DE then
        [(READ, Some ''terrain_border'', ARRAY_CONTAINER,
            Subdata (subdata terrain_TerrainBorder (IntLength 16))),
         (SKIP, Some ''map_row_offset'', INT_MEMBER, TypeStr ''int32_t'')]
      else [])
     @ (if e \<notin> {ROR, AOE1DE} then
          [(SKIP, Some ''map_min_x'', FLOAT_MEMBER, TypeStr ''float''),
           (SKIP, Some ''map_min_y'', FLOAT_MEMBER, TypeStr ''float''),
           (SKIP, Some ''map_max_x'', FLOAT_MEMBER, TypeStr ''float''),
           (SKIP, Some ''map_max_y'', FLOAT_MEMBER, TypeStr ''float''),
           (SKIP, Some ''map_max_xplus1'', FLOAT_MEMBER, TypeStr ''float''),
           (SKIP, Some ''map_min_yplus1'', FLOAT_MEMBER, TypeStr ''float'')]
        else [])"

definition tile_block :: "member list" where
  "tile_block =
     [(READ, Some ''terrain_count_additional'', INT_MEMBER, TypeStr ''uint16_t''),
      (READ, Some ''borders_used'', INT_MEMBER, TypeStr ''uint16_t''),
      (READ, Some ''max_terrain'', INT_MEMBER, TypeStr ''int16_t''),
      (READ_EXPORT, Some ''tile_width'', INT_MEMBER, TypeStr ''int16_t''),
      (READ_EXPORT, Some ''tile_height'', INT_MEMBER, TypeStr ''int16_t''),
      (READ_EXPORT, Some ''tile_half_height'', INT_MEMBER, TypeStr ''int16_t''),
      (READ_EXPORT, Some ''tile_half_width'', INT_MEMBER, TypeStr ''int16_t''),
      (READ_EXPORT, Some ''elev_height'', INT_MEMBER, TypeStr ''int16_t''),
      (SKIP, Some ''current_row'', INT_MEMBER, TypeStr ''int16_t''),
      (SKIP, Some ''current_column'', INT_MEMBER, TypeStr ''int16_t''),
      (SKIP, Some ''block_beginn_row'', INT_MEMBER, TypeStr ''int16_t''),
      (SKIP, Some ''block_end_row'', INT_MEMBER, TypeStr ''int16_t''),
      (SKIP, Some ''block_begin_column'', INT_MEMBER, TypeStr ''int16_t''),
      (SKIP, Some ''block_end_column'', INT_MEMBER, TypeStr ''int16_t'')]"

definition search_map_block :: "GameEdition \<Rightarrow> member list" where
  "search_map_block e =
     (if e \<notin> {ROR, AOE1DE} then
        [(SKIP, Some ''search_map_ptr'', INT_MEMBER, TypeStr ''int32_t''),
         (SKIP, Some ''search_map_rows_ptr'', INT_MEMBER, TypeStr ''int32_t''),
         (SKIP, Some ''any_frame_change'', INT_MEMBER, TypeStr ''int8_t'')]
      else
        [(SKIP, Some ''any_frame_change'', INT_MEMBER, TypeStr ''int32_t''),
         (SKIP, Some ''search_map_ptr'', INT_MEMBER, TypeStr ''int32_t''),
         (SKIP, Some ''search_map_rows_ptr'', INT_MEMBER, TypeStr ''int32_t'')])
     @ [(SKIP, Some ''map_visible_flag'', INT_MEMBER, TypeStr ''int8_t''),
        (SKIP, Some ''fog_flag'', INT_MEMBER, TypeStr ''int8_t'')]"

definition blob_block :: "GameEdition \<Rightarrow> member list" where
  "blob_block e =
     (if e \<noteq> AOE2DE then
        (if e = SWGB then
           [(READ_UNKNOWN, Some ''terrain_blob0'', ARRAY_INT, TypeStr ''uint8_t[25]''),
            (READ_UNKNOWN, Some ''terrain_blob1'', ARRAY_INT, TypeStr ''uint32_t[157]'')]
         else if e \<in> {ROR, AOE1DE} then
           [(READ_UNKNOWN, Some ''terrain_blob0'', ARRAY_INT, TypeStr ''uint8_t[2]''),
            (READ_UNKNOWN, Some ''terrain_blob1'', ARRAY_INT, TypeStr ''uint32_t[5]'')]
         else
           [(READ_UNKNOWN, Some ''terrain_blob0'', ARRAY_INT, TypeStr ''uint8_t[21]''),
            (READ_UNKNOWN, Some ''terrain_blob1'', ARRAY_INT, TypeStr ''uint32_t[157]'')])
      else [])"

definition map_effect_block :: "member list" where
  "map_effect_block =
     [(READ, Some ''random_map_count'', INT_MEMBER, TypeStr ''uint32_t''),
      (READ, Some ''random_map_ptr'', ID_MEMBER, TypeStr ''uint32_t''),
      (READ, Some ''map_infos'', ARRAY_CONTAINER,
         Subdata (subdata maps_MapInfo (NameLength ''random_map_count''))),
      (READ, Some ''maps'', ARRAY_CONTAINER,
         Subdata (subdata maps_Map (NameLength ''random_map_count''))),
      (READ_EXPORT, Some ''effect_bundle_count'', INT_MEMBER, TypeStr ''uint32_t''),
      (READ_EXPORT, Some ''effect_bundles'', ARRAY_CONTAINER,
         Subdata (subdata tech_EffectBundle (NameLength ''effect_bundle_count'')))]"

definition unit_civ_block :: "GameEdition \<Rightarrow> member list" where
  "unit_civ_block e =
     (if e = SWGB then
        [(READ, Some ''unit_line_count'', INT_MEMBER, TypeStr ''uint16_t''),
         (READ, Some ''unit_lines'', ARRAY_CONTAINER,
            Subdata (subdata unit_UnitLine (NameLength ''unit_line_count'')))]
      else [])
     @ (if e \<notin> {ROR, AOE1DE} then
          [(READ_EXPORT, Some ''unit_count'', INT_MEMBER, TypeStr ''uint32_t''),
           (READ_EXPORT, Some ''unit_headers'', ARRAY_CONTAINER,
              Subdata (subdata unit_UnitHeader (NameLength ''unit_count'')))]
        else [])
     @ [(READ_EXPORT, Some ''civ_count'', INT_MEMBER, TypeStr ''uint16_t''),
        (READ_EXPORT, Some ''civs'', ARRAY_CONTAINER,
           Subdata (subdata civ_Civ (NameLength ''civ_count'')))]
     @ (if e = SWGB then [unknown_int8] else [])
     @ [(READ_EXPORT, Some ''research_count'', INT_MEMBER, TypeStr ''uint16_t''),
        (READ_EXPORT, Some ''researches'', ARRAY_CONTAINER,
           Subdata (subdata research_Tech (NameLength ''research_count'')))]
     @ (if e = SWGB then [unknown_int8] else [])"

definition tech_tree_block :: "GameEdition \<Rightarrow> member list" where
  "tech_tree_block e =
     (if e \<notin> {ROR, AOE1DE} then
        [(SKIP, Some ''time_slice'', INT_MEMBER, TypeStr ''int32_t''),
         (SKIP, Some ''unit_kill_rate'', INT_MEMBER, TypeStr ''int32_t''),
         (SKIP, Some ''unit_kill_total'', INT_MEMBER, TypeStr ''int32_t''),
         (SKIP, Some ''unit_hitpoint_rate'', INT_MEMBER, TypeStr ''int32_t''),
         (SKIP, Some ''unit_hitpoint_total'', INT_MEMBER, TypeStr ''int32_t''),
         (SKIP, Some ''razing_kill_rate'', INT_MEMBER, TypeStr ''int32_t''),
         (SKIP, Some ''razing_kill_total'', INT_MEMBER, TypeStr ''int32_t'')]
        @ [(READ_EXPORT, Some ''age_connection_count'', INT_MEMBER, TypeStr ''uint8_t''),
           (READ_EXPORT, Some ''building_connection_count'', INT_MEMBER, TypeStr ''uint8_t'')]
        @ (if e = SWGB then
             [(READ_EXPORT, Some ''unit_connection_count'', INT_MEMBER, TypeStr ''uint16_t'')]
           else
             [(READ_EXPORT, Some ''unit_connection_count'', INT_MEMBER, TypeStr ''uint8_t'')])
        @ [(READ_EXPORT, Some ''tech_connection_count'', INT_MEMBER, TypeStr ''uint8_t''),
           (READ_EXPORT, Some ''total_unit_tech_groups'', INT_MEMBER, TypeStr ''int32_t''),
           (READ_EXPORT, Some ''age_connections'', ARRAY_CONTAINER,
              Subdata (subdata tech_AgeTechTree (NameLength ''age_connection_count''))),
           (READ_EXPORT, Some ''building_connections'', ARRAY_CONTAINER,
              Subdata (subdata tech_BuildingConnection (NameLength ''building_connection_count''))),
           (READ_EXPORT, Some ''unit_connections'', ARRAY_CONTAINER,
              Subdata (subdata tech_UnitConnection (NameLength ''unit_connection_count''))),
           (READ_EXPORT, Some ''tech_connections'', ARRAY_CONTAINER,
              Subdata (subdata tech_ResearchConnection (NameLength ''tech_connection_count'')))]
      else [])"

text \<open>
  The errors a call can end in. \<open>UnsupportedVersion\<close>, \<open>MissingLengthReference\<close> and
  \<open>TruncatedInput\<close> are the names the specification gives; the others are the Python
  exceptions of the calls \<open>load_gamespec\<close> makes.
\<close>

datatype error =
  UnsupportedVersion | MissingLengthReference | TruncatedInput
  | PermissionError | ZlibError | IndexError | PicklingError

text \<open>The value of the local variable \<open>data_format\<close> when the function returns.\<close>

definition data_format :: "'x game_version \<Rightarrow> member list" where
  "data_format game_version =
     (let e = fst game_version in
        header_block e @ media_block @ terrains_block e @ border_block e @ tile_block
        @ search_map_block e @ blob_block e @ map_effect_block @ unit_civ_block e
        @ tech_tree_block e)"

text \<open>
  The function has no \<open>raise\<close> statement and one \<open>return\<close>, its last line
  \<open>return data_format\<close>: every call returns.
\<close>

definition get_data_format_members :: "'x game_version \<Rightarrow> error + member list" where
  "get_data_format_members game_version = Inr (data_format game_version)"

subsection \<open>Reading the schema: lengths, references, gates\<close>

text \<open>
  Modelled from the spec: the decoder (\<open>GenieStructure.read\<close>, dataformat/genie\_structure)
  is not among the sources. By the specification an array member takes its element count
  from a literal or from the sibling member named as its length. In a type string the
  length is the text between the brackets, \<open>"uint8_t[25]"\<close> or
  \<open>"uint32_t[graphic_count]"\<close>: a run of digits is a literal, anything else a name.
\<close>

definition is_digit :: "char \<Rightarrow> bool" where
  "is_digit c = (c \<in> set ''0123456789'')"

definition int_of_digits :: "string \<Rightarrow> nat" where
  "int_of_digits s = foldl (\<lambda>n c. 10 * n + (of_char c - 48)) 0 s"

definition array_length :: "string \<Rightarrow> length_source option" where
  "array_length s =
     (case dropWhile (\<lambda>c. c \<noteq> CHR ''['') s of
        [] \<Rightarrow> None
      | _ # rest \<Rightarrow>
          (let inner = takeWhile (\<lambda>c. c \<noteq> CHR '']'') rest in
             if inner \<noteq> [] \<and> list_all is_digit inner
             then Some (IntLength (int_of_digits inner))
             else Some (NameLength inner)))"

text \<open>The length source of a member: \<open>None\<close> for a member that is no array.\<close>

definition length_of :: "member \<Rightarrow> length_source option" where
  "length_of m =
     (case type_of m of
        TypeStr s \<Rightarrow> array_length s
      | Subdata sm \<Rightarrow> Some (length_sub sm))"

text \<open>The presence gate of a member: the member named by \<open>offset_to\<close>.\<close>

definition gate_of :: "member \<Rightarrow> string option" where
  "gate_of m =
     (case type_of m of
        TypeStr s \<Rightarrow> None
      | Subdata sm \<Rightarrow> (case offset_to sm of None \<Rightarrow> None | Some (g, t) \<Rightarrow> Some g))"

text \<open>
  The sibling names a member refers to: its length when that is a name, the names in
  \<open>passed_args\<close>, and the name in \<open>offset_to\<close>.
\<close>

definition references :: "member \<Rightarrow> string set" where
  "references m =
     (case length_of m of Some (NameLength n) \<Rightarrow> {n} | _ \<Rightarrow> {})
     \<union> (case type_of m of TypeStr s \<Rightarrow> {} | Subdata sm \<Rightarrow> passed_args sm)
     \<union> (case gate_of m of None \<Rightarrow> {} | Some g \<Rightarrow> {g})"

text \<open>
  Modelled from the spec: only members read with \<open>READ\<close> or \<open>READ_EXPORT\<close> (the
  specification's Store and StoreExported) enter the sibling values under their name.
\<close>

definition stored_name :: "member \<Rightarrow> string set" where
  "stored_name m =
     (if access_of m = READ \<or> access_of m = READ_EXPORT
      then (case name_of m of None \<Rightarrow> {} | Some n \<Rightarrow> {n}) else {})"

text \<open>
  Modelled from the spec: the decoder walks the list in order; at each member every name
  it refers to must already be among the sibling values (otherwise
  \<open>MissingLengthReference\<close>), and then the member's own name is added.
\<close>

fun resolve_references :: "string set \<Rightarrow> member list \<Rightarrow> error + string set" where
  "resolve_references seen [] = Inr seen"
| "resolve_references seen (m # ms) =
     (if references m \<subseteq> seen then resolve_references (seen \<union> stored_name m) ms
      else Inl MissingLengthReference)"

text \<open>
  The table of the specification for the literal length of \<open>terrains\<close>: 55 for SWGB, 200
  for AOE2DE, 96 for AOE1DE, 100 for HDEDITION, 42 for AOC, and 32 otherwise.
\<close>

fun terrain_length_table :: "GameEdition \<Rightarrow> nat" where
  "terrain_length_table SWGB = 55"
| "terrain_length_table AOE2DE = 200"
| "terrain_length_table AOE1DE = 96"
| "terrain_length_table HDEDITION = 100"
| "terrain_length_table AOC = 42"
| "terrain_length_table _ = 32"

text \<open>
  Every gated member has, somewhere in the list, the member its gate names, an array of
  identifiers with the same length source as the gated member.
\<close>

definition gates_agree :: "member list \<Rightarrow> bool" where
  "gates_agree ms =
     list_all (\<lambda>m. case gate_of m of
                     None \<Rightarrow> True
                   | Some g \<Rightarrow>
                       list_ex (\<lambda>m'. name_of m' = Some g \<and> storage_of m' = ARRAY_ID
                                      \<and> length_of m' = length_of m) ms) ms"

section \<open>Loading the game data (load\_gamespec)\<close>

subsection \<open>The world around the function\<close>

type_synonym byte = "8 word"

text \<open>
  What \<open>open(cachefile_name, "rb")\<close> finds: no file (\<open>FileNotFoundError\<close>), a file that
  cannot be opened (\<open>PermissionError\<close>), or a file with its content.
\<close>

datatype file_entry = Missing | NoAccess | Content "byte list"

text \<open>A call of the log module: the level, the format string and its argument.\<close>

datatype level = SPAM | DBG | INFO | WARN | STDERR

datatype log_arg = NoArg | StrArg string | IntArg nat

type_synonym log_line = "level \<times> string \<times> log_arg"

text \<open>
  The state the function reads and writes: the files by name, whether
  \<open>open(name, "wb")\<close> succeeds for a name, and the lines logged so far.
\<close>

record world =
  files :: "string \<Rightarrow> file_entry"
  writable :: "string \<Rightarrow> bool"
  logged :: "log_line list"

definition add_log :: "log_line \<Rightarrow> world \<Rightarrow> world" where
  "add_log l w = w\<lparr>logged := logged w @ [l]\<rparr>"

text \<open>
  The library and repository functions the body calls, none of them among the sources:
  \<open>pickle.load\<close> (\<open>None\<close>: it raised an \<open>Exception\<close>), \<open>pickle.dump\<close> (\<open>None\<close>:
  it raised), \<open>zlib.decompress(data, -15)\<close> (\<open>None\<close>: \<open>zlib.error\<close>), and
  \<open>EmpiresDatWrapper().read(file_data, offset, game_version)\<close>, which returns the end
  offset and the list of decoded top-level elements or raises. \<open>'t\<close> is the type of the
  decoded tree.
\<close>

record ('t, 'x) env =
  pickle_load :: "byte list \<Rightarrow> 't option"
  pickle_dump :: "'t \<Rightarrow> byte list option"
  decompress :: "byte list \<Rightarrow> byte list option"
  wrapper_read :: "byte list \<Rightarrow> nat \<Rightarrow> 'x game_version \<Rightarrow> error + nat \<times> 't list"

subsection \<open>The function\<close>

text \<open>
  Lines 375 to 391, entered when \<open>cachefile_name and load_cache\<close> holds. A missing file is
  passed over (\<open>except FileNotFoundError: pass\<close>); any other failure of \<open>open\<close> is not
  caught; an \<open>Exception\<close> of \<open>pickle.load\<close> is caught, with two warnings and a traceback.
\<close>

datatype 't cache_lookup = Hit 't | Miss | Raised error

definition consult_cache :: "('t, 'x) env \<Rightarrow> world \<Rightarrow> string \<Rightarrow> 't cache_lookup \<times> world" where
  "consult_cache env w cachefile_name =
     (case files w cachefile_name of
        Missing \<Rightarrow> (Miss, w)
      | NoAccess \<Rightarrow> (Raised PermissionError, w)
      | Content cachefile \<Rightarrow>
          (case pickle_load env cachefile of
             Some wrapper \<Rightarrow>
               (Hit wrapper, add_log (INFO, ''using cached wrapper: %s'', StrArg cachefile_name) w)
           | None \<Rightarrow>
               (Miss,
                add_log (WARN, ''we will just skip the cache, no worries.'', NoArg)
                  (add_log (STDERR, ''traceback'', NoArg)
                     (add_log (WARN, ''could not use cached wrapper:'', NoArg) w)))))"

text \<open>
  Lines 414 and 415: \<open>open(cachefile_name, "wb")\<close> raises or empties the file, then
  \<open>pickle.dump\<close> raises or writes. Nothing around the two lines catches an exception.
\<close>

definition store_cache :: "('t, 'x) env \<Rightarrow> world \<Rightarrow> string \<Rightarrow> 't \<Rightarrow> error option \<times> world" where
  "store_cache env w cachefile_name gamespec =
     (if \<not> writable w cachefile_name then (Some PermissionError, w)
      else
        (let w' = w\<lparr>files := (files w)(cachefile_name := Content [])\<rparr> in
           case pickle_dump env gamespec of
             None \<Rightarrow> (Some PicklingError, w')
           | Some data \<Rightarrow> (None, w'\<lparr>files := (files w')(cachefile_name := Content data)\<rparr>)))"

text \<open>A Python string option is true when it is neither \<open>None\<close> nor empty.\<close>

definition truthy :: "string option \<Rightarrow> bool" where
  "truthy cachefile_name = (case cachefile_name of None \<Rightarrow> False | Some n \<Rightarrow> n \<noteq> [])"

text \<open>
  Lines 393 to 417, reached on a miss. \<open>fileobj\<close> is the bytes \<open>fileobj.read()\<close>
  returns; closing the file object afterwards changes nothing the function returns.
  The element 0 of the decoded list is taken (\<open>IndexError\<close> on an empty list), and the
  cache file is written whenever a name is given, whatever \<open>load_cache\<close> is.
\<close>

definition decode_and_store ::
  "('t, 'x) env \<Rightarrow> world \<Rightarrow> byte list \<Rightarrow> 'x game_version \<Rightarrow> string option \<Rightarrow> (error + 't) \<times> world"
where
  "decode_and_store env w fileobj game_version cachefile_name =
     (let w1 = add_log (DBG, ''reading dat file'', NoArg) w;
          compressed_data = fileobj;
          w2 = add_log (DBG, ''decompressing dat file'', NoArg) w1
      in case decompress env compressed_data of
           None \<Rightarrow> (Inl ZlibError, w2)
         | Some file_data \<Rightarrow>
             (let w3 = add_log (SPAM, ''length of decompressed data: %d'',
                                IntArg (length file_data)) w2
              in case wrapper_read env file_data 0 game_version of
                   Inl e \<Rightarrow> (Inl e, w3)
                 | Inr (end_offset, gamespec) \<Rightarrow>
                     (case gamespec of
                        [] \<Rightarrow> (Inl IndexError, w3)
                      | gamespec0 # others \<Rightarrow>
                          (case cachefile_name of
                             None \<Rightarrow> (Inr gamespec0, w3)
                           | Some n \<Rightarrow>
                               if n = [] then (Inr gamespec0, w3)
                               else
                                 (let w4 = add_log (DBG,
                                       ''dumping dat file contents to cache file: %s'',
                                       StrArg n) w3
                                  in case store_cache env w4 n gamespec0 of
                                       (Some e, w5) \<Rightarrow> (Inl e, w5)
                                     | (None, w5) \<Rightarrow> (Inr gamespec0, w5))))))"

definition load_gamespec ::
  "('t, 'x) env \<Rightarrow> world \<Rightarrow> byte list \<Rightarrow> 'x game_version \<Rightarrow> string option \<Rightarrow> bool
     \<Rightarrow> (error + 't) \<times> world"
where
  "load_gamespec env w fileobj game_version cachefile_name load_cache =
     (case (if truthy cachefile_name \<and> load_cache
            then (case cachefile_name of
                    Some n \<Rightarrow> consult_cache env w n
                  | None \<Rightarrow> (Miss, w))
            else (Miss, w)) of
        (Hit wrapper, w') \<Rightarrow> (Inr wrapper, w')
      | (Raised e, w') \<Rightarrow> (Inl e, w')
      | (Miss, w') \<Rightarrow> decode_and_store env w' fileobj game_version cachefile_name)"

subsection \<open>A small concrete world\<close>

text \<open>
  Instances of the parameters, for evaluating the function on concrete inputs. The tree
  is the list of bytes the decoder was given. \<open>inflate_stored\<close> is raw deflate on a stream
  of one final stored block (byte 1, the length and its complement in two bytes each, then
  the data), the only streams used below; \<open>toy_load\<close> and \<open>toy_dump\<close> stand for pickle,
  a tree being stored behind the byte 128.
\<close>

definition inflate_stored :: "byte list \<Rightarrow> byte list option" where
  "inflate_stored s =
     (case s of
        b0 # l0 # l1 # n0 # n1 # payload \<Rightarrow>
          if b0 = 1 \<and> n0 = 255 - l0 \<and> n1 = 255 - l1
             \<and> length payload = unat l0 + 256 * unat l1
          then Some payload else None
      | _ \<Rightarrow> None)"

definition toy_load :: "byte list \<Rightarrow> byte list option" where
  "toy_load s = (case s of [] \<Rightarrow> None | b # t \<Rightarrow> if b = 128 then Some t else None)"

definition toy_dump :: "byte list \<Rightarrow> byte list option" where
  "toy_dump t = Some (128 # t)"

definition toy_env :: "(byte list, unit) env" where
  "toy_env =
     \<lparr>pickle_load = toy_load, pickle_dump = toy_dump, decompress = inflate_stored,
      wrapper_read = (\<lambda>file_data offset game_version. Inr (length file_data, [file_data]))\<rparr>"

text \<open>
  Four cache files: \<open>good\<close> holds the tree \<open>[7]\<close>; \<open>stale\<close> and \<open>corrupt\<close> do
  not unpickle; \<open>locked\<close> cannot be opened for reading; any other name is missing.
  Every name can be opened for writing but \<open>corrupt\<close>.
\<close>

definition toy_world :: world where
  "toy_world =
     \<lparr>files = (\<lambda>n. if n = ''good'' then Content [128, 7]
                   else if n = ''stale'' \<or> n = ''corrupt'' then Content [0]
                   else if n = ''locked'' then NoAccess else Missing),
      writable = (\<lambda>n. n \<noteq> ''corrupt''),
      logged = []\<rparr>"

text \<open>The stored block holding the single byte 65.\<close>

definition toy_dat :: "byte list" where
  "toy_dat = [1, 1, 0, 254, 255, 65]"

section \<open>Properties of the schema\<close>

lemmas blocks = data_format_def header_block_def media_block_def terrains_block_def
  border_block_def tile_block_def search_map_block_def blob_block_def map_effect_block_def
  unit_civ_block_def tech_tree_block_def unknown_int32_def unknown_int8_def
  terrains_member_def subdata_def

lemmas readers = references_def length_of_def gate_of_def array_length_def stored_name_def
  is_digit_def int_of_digits_def access_of_def name_of_def type_of_def storage_of_def

subsection \<open>Unknown editions\<close>

text \<open>
  Claim C1 says that for an edition that is none of SWGB, AOE2DE, AOE1DE, HDEDITION, AOC
  and ROR the function fails with \<open>UnsupportedVersion\<close>. It does not: the function never
  raises, and for such an edition it returns a list.
\<close>

theorem unknown_edition_not_unsupported:
  "get_data_format_members (OtherEdition 0, ()) \<noteq> Inl UnsupportedVersion"
  by (simp add: get_data_format_members_def)

text \<open>
  Claim C1, as the code has it: for an edition that is none of the six, every test on the
  edition takes its \<open>else\<close> side, and the list returned is the one of AOC with the
  length of \<open>terrains\<close> replaced by 32, the length of the final \<open>else\<close> of lines 141
  to 145.
\<close>

theorem unknown_edition_falls_through:
  assumes "fst gv \<notin> {SWGB, AOE2DE, AOE1DE, HDEDITION, AOC, ROR}"
  shows "get_data_format_members gv =
           Inr (map (\<lambda>m. if name_of m = Some ''terrains'' then terrains_member 32 else m)
                  (data_format (AOC, snd gv)))"
proof -
  obtain e y where gv: "gv = (e, y)" by (cases gv)
  from assms show ?thesis unfolding gv get_data_format_members_def
    by (cases e) (simp_all add: blocks name_of_def)
qed

theorem unknown_edition_falls_through_witness:
  "get_data_format_members (OtherEdition 0, ()) =
     Inr (map (\<lambda>m. if name_of m = Some ''terrains'' then terrains_member 32 else m)
            (data_format (AOC, ())))"
  using unknown_edition_falls_through [of "(OtherEdition 0, ())"] by simp

subsection \<open>References to sibling members\<close>

lemma resolve_references_data_format:
  "resolve_references {} (data_format (e, x)) \<noteq> Inl MissingLengthReference"
  by (cases e) (simp_all add: blocks readers)

lemma resolve_references_nth:
  "resolve_references seen ms \<noteq> Inl MissingLengthReference \<Longrightarrow> i < length ms \<Longrightarrow>
   n \<in> references (ms ! i) \<Longrightarrow> n \<in> seen \<or> (\<exists>j<i. n \<in> stored_name (ms ! j))"
proof (induction ms arbitrary: seen i)
  case Nil
  then show ?case by simp
next
  case (Cons m ms)
  from Cons.prems(1) have sub: "references m \<subseteq> seen"
    and rest: "resolve_references (seen \<union> stored_name m) ms \<noteq> Inl MissingLengthReference"
    by (auto split: if_splits)
  show ?case
  proof (cases i)
    case 0
    with Cons.prems(3) sub show ?thesis by auto
  next
    case (Suc k)
    with Cons.prems have "k < length ms" "n \<in> references (ms ! k)" by auto
    from Cons.IH [OF rest this]
    have "n \<in> seen \<union> stored_name m \<or> (\<exists>j<k. n \<in> stored_name (ms ! j))" .
    then show ?thesis
    proof (elim disjE exE conjE)
      assume "n \<in> seen \<union> stored_name m"
      then show ?thesis using Suc by auto
    next
      fix j assume "j < k" "n \<in> stored_name (ms ! j)"
      then have "Suc j < i \<and> n \<in> stored_name ((m # ms) ! Suc j)" using Suc by simp
      then show ?thesis by blast
    qed
  qed
qed

lemma stored_nameD:
  "n \<in> stored_name m \<Longrightarrow>
   name_of m = Some n \<and> (access_of m = READ \<or> access_of m = READ_EXPORT)"
  by (auto simp: stored_name_def split: if_splits option.splits)

text \<open>
  Claim C6: for every game version, in the list the function returns every sibling name a
  member refers to (as the length of an array, in \<open>passed_args\<close> or in \<open>offset_to\<close>) is
  the name of a member read with \<open>READ\<close> or \<open>READ_EXPORT\<close> at a strictly smaller index,
  so that resolving the references in list order never ends in
  \<open>MissingLengthReference\<close>.
\<close>

theorem references_declared_earlier:
  "\<exists>ms. get_data_format_members gv = Inr ms \<and>
     resolve_references {} ms \<noteq> Inl MissingLengthReference \<and>
     (\<forall>i n. i < length ms \<and> n \<in> references (ms ! i) \<longrightarrow>
        (\<exists>j<i. name_of (ms ! j) = Some n \<and>
                (access_of (ms ! j) = READ \<or> access_of (ms ! j) = READ_EXPORT)))"
proof -
  obtain e x where gv: "gv = (e, x)" by (cases gv)
  have r: "resolve_references {} (data_format gv) \<noteq> Inl MissingLengthReference"
    unfolding gv by (rule resolve_references_data_format)
  have "\<exists>j<i. name_of (data_format gv ! j) = Some n \<and>
               (access_of (data_format gv ! j) = READ \<or>
                access_of (data_format gv ! j) = READ_EXPORT)"
    if "i < length (data_format gv)" "n \<in> references (data_format gv ! i)" for i n
    using resolve_references_nth [OF r that] stored_nameD by blast
  with r show ?thesis by (simp add: get_data_format_members_def)
qed

text \<open>
  At AOC the member at index 3, \<open>float_ptr_terrain_tables\<close>, has the length
  \<open>terrain_restriction_count\<close>, which a member before it declares.
\<close>

theorem references_declared_earlier_witness:
  "3 < length (data_format (AOC, ())) \<and>
   ''terrain_restriction_count'' \<in> references (data_format (AOC, ()) ! 3) \<and>
   (\<exists>j<3. name_of (data_format (AOC, ()) ! j) = Some ''terrain_restriction_count'' \<and>
           (access_of (data_format (AOC, ()) ! j) = READ \<or>
            access_of (data_format (AOC, ()) ! j) = READ_EXPORT))"
proof -
  from references_declared_earlier [of "(AOC, ())"]
  obtain ms where ms: "get_data_format_members (AOC, ()) = Inr ms"
    and earlier: "\<forall>i n. i < length ms \<and> n \<in> references (ms ! i) \<longrightarrow>
        (\<exists>j<i. name_of (ms ! j) = Some n \<and>
                (access_of (ms ! j) = READ \<or> access_of (ms ! j) = READ_EXPORT))"
    by blast
  from ms have eq: "ms = data_format (AOC, ())"
    by (simp add: get_data_format_members_def)
  have len: "3 < length (data_format (AOC, ()))"
    by (simp add: blocks)
  have ref: "''terrain_restriction_count'' \<in> references (data_format (AOC, ()) ! 3)"
    by (simp add: blocks readers)
  from earlier len ref show ?thesis unfolding eq by blast
qed

subsection \<open>The length of terrains\<close>

text \<open>
  Claim C7: for every game version the list returned has exactly one member named
  \<open>terrains\<close>, a container array of \<open>Terrain\<close> whose literal length is the one the
  table gives for the edition: 55 for SWGB, 200 for AOE2DE, 96 for AOE1DE, 100 for
  HDEDITION, 42 for AOC and 32 otherwise.
\<close>

theorem terrains_length_by_edition:
  "\<exists>ms. get_data_format_members gv = Inr ms \<and>
     filter (\<lambda>m. name_of m = Some ''terrains'') ms =
       [(READ_EXPORT, Some ''terrains'', ARRAY_CONTAINER,
         Subdata \<lparr>ref_type = terrain_Terrain,
                  length_sub = IntLength (terrain_length_table (fst gv)),
                  passed_args = {}, offset_to = None\<rparr>)]"
proof -
  obtain e x where gv: "gv = (e, x)" by (cases gv)
  show ?thesis unfolding gv get_data_format_members_def
    by (cases e) (simp_all add: blocks name_of_def)
qed

theorem terrains_length_by_edition_witness:
  "\<exists>ms. get_data_format_members (HDEDITION, ()) = Inr ms \<and>
     filter (\<lambda>m. name_of m = Some ''terrains'') ms =
       [(READ_EXPORT, Some ''terrains'', ARRAY_CONTAINER,
         Subdata \<lparr>ref_type = terrain_Terrain, length_sub = IntLength 100,
                  passed_args = {}, offset_to = None\<rparr>)]"
  using terrains_length_by_edition [of "(HDEDITION, ())"] by simp

subsection \<open>The presence gate of graphics\<close>

text \<open>
  Claim C8: for every game version, every member with a presence gate in the list
  returned has a gate array with the same length source as the member itself. The only
  gated member is \<open>graphics\<close>, gated on the entries of \<open>graphic_ptrs\<close> being
  non-zero, with the length \<open>graphic_count\<close>; and \<open>graphic_ptrs\<close> is declared once,
  as an array of identifiers of length \<open>graphic_count\<close>. The gate test \<open>o > 0\<close> on an
  unsigned 32-bit entry is the test for non-zero.
\<close>

theorem graphics_gate_length:
  "\<exists>ms. get_data_format_members gv = Inr ms \<and> gates_agree ms \<and>
     filter (\<lambda>m. gate_of m \<noteq> None) ms =
       [(READ_EXPORT, Some ''graphics'', ARRAY_CONTAINER,
         Subdata \<lparr>ref_type = graphic_Graphic, length_sub = NameLength ''graphic_count'',
                  passed_args = {}, offset_to = Some (''graphic_ptrs'', GreaterZero)\<rparr>)] \<and>
     filter (\<lambda>m. name_of m = Some ''graphic_ptrs'') ms =
       [(READ, Some ''graphic_ptrs'', ARRAY_ID, TypeStr ''uint32_t[graphic_count]'')] \<and>
     length_of (READ, Some ''graphic_ptrs'', ARRAY_ID, TypeStr ''uint32_t[graphic_count]'') =
       Some (NameLength ''graphic_count'') \<and>
     (\<forall>v :: 32 word. offset_holds GreaterZero (uint v) = (v \<noteq> 0))"
proof -
  obtain e x where gv: "gv = (e, x)" by (cases gv)
  have test: "offset_holds GreaterZero (uint v) = (v \<noteq> 0)" for v :: "32 word"
    using uint_ge_0 [of v] uint_0_iff [of v] by (simp add: less_le)
  have "\<exists>ms. get_data_format_members gv = Inr ms \<and> gates_agree ms \<and>
     filter (\<lambda>m. gate_of m \<noteq> None) ms =
       [(READ_EXPORT, Some ''graphics'', ARRAY_CONTAINER,
         Subdata \<lparr>ref_type = graphic_Graphic, length_sub = NameLength ''graphic_count'',
                  passed_args = {}, offset_to = Some (''graphic_ptrs'', GreaterZero)\<rparr>)] \<and>
     filter (\<lambda>m. name_of m = Some ''graphic_ptrs'') ms =
       [(READ, Some ''graphic_ptrs'', ARRAY_ID, TypeStr ''uint32_t[graphic_count]'')] \<and>
     length_of (READ, Some ''graphic_ptrs'', ARRAY_ID, TypeStr ''uint32_t[graphic_count]'') =
       Some (NameLength ''graphic_count'')"
    unfolding gv get_data_format_members_def
    by (cases e) (simp_all add: blocks readers gates_agree_def)
  with test show ?thesis by blast
qed

theorem graphics_gate_length_witness:
  "\<exists>ms. get_data_format_members (SWGB, ()) = Inr ms \<and> gates_agree ms \<and>
     filter (\<lambda>m. gate_of m \<noteq> None) ms =
       [(READ_EXPORT, Some ''graphics'', ARRAY_CONTAINER,
         Subdata \<lparr>ref_type = graphic_Graphic, length_sub = NameLength ''graphic_count'',
                  passed_args = {}, offset_to = Some (''graphic_ptrs'', GreaterZero)\<rparr>)] \<and>
     filter (\<lambda>m. name_of m = Some ''graphic_ptrs'') ms =
       [(READ, Some ''graphic_ptrs'', ARRAY_ID, TypeStr ''uint32_t[graphic_count]'')] \<and>
     length_of (READ, Some ''graphic_ptrs'', ARRAY_ID, TypeStr ''uint32_t[graphic_count]'') =
       Some (NameLength ''graphic_count'') \<and>
     (\<forall>v :: 32 word. offset_holds GreaterZero (uint v) = (v \<noteq> 0))"
  by (rule graphics_gate_length)

subsection \<open>Names are unique\<close>

text \<open>
  Claim C9: for every game version, in the list returned the names that are present are
  pairwise different: each occurs exactly once.
\<close>

theorem member_names_unique:
  "\<exists>ms. get_data_format_members gv = Inr ms \<and> distinct (List.map_filter name_of ms)"
proof -
  obtain e x where gv: "gv = (e, x)" by (cases gv)
  show ?thesis unfolding gv get_data_format_members_def
    by (cases e) (simp_all add: blocks name_of_def List.map_filter_def)
qed

theorem member_names_unique_witness:
  "\<exists>ms. get_data_format_members (AOE2DE, ()) = Inr ms \<and>
     distinct (List.map_filter name_of ms)"
  by (rule member_names_unique)

subsection \<open>The search map block\<close>

text \<open>
  Claim C10: the skip members \<open>any_frame_change\<close>, \<open>search_map_ptr\<close> and
  \<open>search_map_rows_ptr\<close> are in the list for every edition. For ROR and AOE1DE
  \<open>any_frame_change\<close> is an \<open>int32_t\<close> and comes before the two pointers; for every
  other edition it is an \<open>int8_t\<close> and comes after them.
\<close>

theorem frame_change_block_by_edition:
  "\<exists>ms. get_data_format_members gv = Inr ms \<and>
     filter (\<lambda>m. name_of m \<in> {Some ''any_frame_change'', Some ''search_map_ptr'',
                               Some ''search_map_rows_ptr''}) ms =
       (if fst gv \<in> {ROR, AOE1DE} then
          [(SKIP, Some ''any_frame_change'', INT_MEMBER, TypeStr ''int32_t''),
           (SKIP, Some ''search_map_ptr'', INT_MEMBER, TypeStr ''int32_t''),
           (SKIP, Some ''search_map_rows_ptr'', INT_MEMBER, TypeStr ''int32_t'')]
        else
          [(SKIP, Some ''search_map_ptr'', INT_MEMBER, TypeStr ''int32_t''),
           (SKIP, Some ''search_map_rows_ptr'', INT_MEMBER, TypeStr ''int32_t''),
           (SKIP, Some ''any_frame_change'', INT_MEMBER, TypeStr ''int8_t'')])"
proof -
  obtain e x where gv: "gv = (e, x)" by (cases gv)
  show ?thesis unfolding gv get_data_format_members_def
    by (cases e) (simp_all add: blocks name_of_def)
qed

theorem frame_change_block_by_edition_witness:
  "(\<exists>ms. get_data_format_members (ROR, ()) = Inr ms \<and>
      filter (\<lambda>m. name_of m \<in> {Some ''any_frame_change'', Some ''search_map_ptr'',
                                Some ''search_map_rows_ptr''}) ms =
        [(SKIP, Some ''any_frame_change'', INT_MEMBER, TypeStr ''int32_t''),
         (SKIP, Some ''search_map_ptr'', INT_MEMBER, TypeStr ''int32_t''),
         (SKIP, Some ''search_map_rows_ptr'', INT_MEMBER, TypeStr ''int32_t'')]) \<and>
   (\<exists>ms. get_data_format_members (AOC, ()) = Inr ms \<and>
      filter (\<lambda>m. name_of m \<in> {Some ''any_frame_change'', Some ''search_map_ptr'',
                                Some ''search_map_rows_ptr''}) ms =
        [(SKIP, Some ''search_map_ptr'', INT_MEMBER, TypeStr ''int32_t''),
         (SKIP, Some ''search_map_rows_ptr'', INT_MEMBER, TypeStr ''int32_t''),
         (SKIP, Some ''any_frame_change'', INT_MEMBER, TypeStr ''int8_t'')])"
  using frame_change_block_by_edition [of "(ROR, ())"]
    frame_change_block_by_edition [of "(AOC, ())"] by simp

section \<open>Properties of load\_gamespec\<close>

lemmas toys = toy_env_def toy_world_def toy_dat_def toy_load_def toy_dump_def
  inflate_stored_def

lemmas loads = load_gamespec_def decode_and_store_def consult_cache_def store_cache_def
  truthy_def add_log_def

subsection \<open>An unusable cache file\<close>

text \<open>
  Claim C2 says that every failure to read or unpickle the cache file is caught, and that
  the call then returns what the call without a cache file returns. Neither holds in
  general. The file \<open>corrupt\<close> does not unpickle and is skipped, but the decoded tree is
  then written to it, which fails, and the error of the write is what the caller gets.
  The file \<open>locked\<close> could be written, but it cannot be opened for reading, and only
  \<open>FileNotFoundError\<close> is caught around \<open>open\<close>: the call ends in the error of
  \<open>open\<close>. Without a cache file the same call returns the tree.
\<close>

theorem unusable_cache_differs:
  "fst (load_gamespec toy_env toy_world toy_dat (AOC, ()) (Some ''corrupt'') True)
     = Inl PermissionError \<and>
   writable toy_world ''locked'' \<and>
   fst (load_gamespec toy_env toy_world toy_dat (AOC, ()) (Some ''locked'') True)
     = Inl PermissionError \<and>
   fst (load_gamespec toy_env toy_world toy_dat (AOC, ()) None False) = Inr [65]"
  by (simp add: toys loads)

text \<open>
  Claim C2, as the code has it, for a cache file name that is given and not empty.
  When the cache file is consulted and \<open>open\<close> fails otherwise than by the file being
  missing, the failure is not caught: the call ends in it at once, nothing is logged,
  decoded or written. When the cache file is missing, or its content makes
  \<open>pickle.load\<close> raise an exception, nothing is propagated from the lookup and the
  bytes are decoded. The call then ends as the call without a cache file ends, except
  that a decoded tree is first written to the cache file: if that write fails, its error
  is raised instead of the tree being returned; if a tree is returned, the cache file
  holds its pickled bytes.
\<close>

theorem unusable_cache_is_miss:
  assumes "n \<noteq> []"
  shows "(files w n = NoAccess \<longrightarrow>
            load_gamespec env w fileobj gv (Some n) True = (Inl PermissionError, w)) \<and>
         (files w n = Missing \<or> (\<exists>c. files w n = Content c \<and> pickle_load env c = None) \<longrightarrow>
            fst (load_gamespec env w fileobj gv (Some n) load_cache) =
              (case fst (load_gamespec env w fileobj gv None load_cache') of
                 Inl e \<Rightarrow> Inl e
               | Inr t \<Rightarrow>
                   if \<not> writable w n then Inl PermissionError
                   else if pickle_dump env t = None then Inl PicklingError
                   else Inr t) \<and>
            (\<forall>t. fst (load_gamespec env w fileobj gv (Some n) load_cache) = Inr t \<longrightarrow>
               (\<exists>data. pickle_dump env t = Some data \<and>
                  files (snd (load_gamespec env w fileobj gv (Some n) load_cache)) n
                    = Content data)))"
proof (intro conjI impI allI)
  assume "files w n = NoAccess"
  with assms show "load_gamespec env w fileobj gv (Some n) True = (Inl PermissionError, w)"
    by (simp add: loads)
next
  assume miss: "files w n = Missing \<or> (\<exists>c. files w n = Content c \<and> pickle_load env c = None)"
  with assms show "fst (load_gamespec env w fileobj gv (Some n) load_cache) =
      (case fst (load_gamespec env w fileobj gv None load_cache') of
         Inl e \<Rightarrow> Inl e
       | Inr t \<Rightarrow>
           if \<not> writable w n then Inl PermissionError
           else if pickle_dump env t = None then Inl PicklingError
           else Inr t)"
    by (auto simp: loads Let_def split: option.splits sum.splits list.splits prod.splits)
next
  fix t
  assume miss: "files w n = Missing \<or> (\<exists>c. files w n = Content c \<and> pickle_load env c = None)"
    and ret: "fst (load_gamespec env w fileobj gv (Some n) load_cache) = Inr t"
  with assms show "\<exists>data. pickle_dump env t = Some data \<and>
      files (snd (load_gamespec env w fileobj gv (Some n) load_cache)) n = Content data"
    by (auto simp: loads Let_def
        split: option.splits sum.splits list.splits prod.splits if_splits)
qed

text \<open>
  The file \<open>locked\<close> cannot be opened for reading: the call ends in the error and the
  world is as before. The file \<open>stale\<close> does not unpickle and can be written: the call
  returns the tree \<open>[65]\<close> of the call without a cache file, and the file then holds the
  pickled tree.
\<close>

theorem unusable_cache_is_miss_witness:
  "load_gamespec toy_env toy_world toy_dat (AOC, ()) (Some ''locked'') True
     = (Inl PermissionError, toy_world) \<and>
   fst (load_gamespec toy_env toy_world toy_dat (AOC, ()) (Some ''stale'') True) = Inr [65] \<and>
   fst (load_gamespec toy_env toy_world toy_dat (AOC, ()) None False) = Inr [65] \<and>
   (\<exists>data. pickle_dump toy_env [65] = Some data \<and>
      files (snd (load_gamespec toy_env toy_world toy_dat (AOC, ()) (Some ''stale'') True))
        ''stale'' = Content data)"
proof -
  have a: "''locked'' \<noteq> []" "''stale'' \<noteq> []" by simp_all
  have b: "files toy_world ''locked'' = NoAccess" by (simp add: toys)
  have c: "files toy_world ''stale'' = Missing \<or>
           (\<exists>c. files toy_world ''stale'' = Content c \<and> pickle_load toy_env c = None)"
    by (simp add: toys)
  have d: "fst (load_gamespec toy_env toy_world toy_dat (AOC, ()) None False) = Inr [65]"
    by (simp add: toys loads)
  have e: "writable toy_world ''stale''" "pickle_dump toy_env [65] \<noteq> None"
    by (simp_all add: toys)
  note locked = unusable_cache_is_miss [OF a(1), of toy_world toy_env toy_dat "(AOC, ())"]
  note stale = unusable_cache_is_miss
    [OF a(2), of toy_world toy_env toy_dat "(AOC, ())" True False]
  from locked b have 1: "load_gamespec toy_env toy_world toy_dat (AOC, ()) (Some ''locked'') True
      = (Inl PermissionError, toy_world)" by blast
  from stale c d e
  have 2: "fst (load_gamespec toy_env toy_world toy_dat (AOC, ()) (Some ''stale'') True)
      = Inr [65]" by simp
  from stale c 2
  have 3: "\<exists>data. pickle_dump toy_env [65] = Some data \<and>
      files (snd (load_gamespec toy_env toy_world toy_dat (AOC, ()) (Some ''stale'') True))
        ''stale'' = Content data" by blast
  from 1 2 d 3 show ?thesis by blast
qed

subsection \<open>Decompression\<close>

text \<open>
  Claim C3 says that the function is given decompressed bytes and returns their decode.
  It does not: it decompresses what it reads. Given the stored block \<open>toy_dat\<close>, the
  decoder is run on the single byte the block holds, not on the six bytes given.
\<close>

theorem decodes_decompressed_bytes:
  "fst (load_gamespec toy_env toy_world toy_dat (AOC, ()) None False) = Inr [65] \<and>
   wrapper_read toy_env toy_dat 0 (AOC, ()) = Inr (6, [toy_dat]) \<and> toy_dat \<noteq> [65]"
  by (simp add: toys loads)

text \<open>
  Claim C3, as the code has it: the function decompresses the bytes it reads from
  \<open>fileobj\<close> itself. A tree it returns is either the object unpickled from the cache
  file, or element 0 of the list decoded at offset 0 from the decompressed bytes.
\<close>

theorem returned_tree_origin:
  assumes "load_gamespec env w fileobj gv cachefile_name load_cache = (Inr t, w')"
  shows "(\<exists>n c. cachefile_name = Some n \<and> n \<noteq> [] \<and> load_cache \<and> files w n = Content c
                \<and> pickle_load env c = Some t)
         \<or> (\<exists>file_data end_offset others.
               decompress env fileobj = Some file_data
               \<and> wrapper_read env file_data 0 gv = Inr (end_offset, t # others))"
  using assms
  by (auto simp: loads Let_def split: option.splits if_splits file_entry.splits sum.splits
      list.splits prod.splits)

text \<open>
  Without a cache file the tree \<open>[65]\<close> returned for \<open>toy_dat\<close> is decoded from the
  decompressed bytes.
\<close>

theorem returned_tree_origin_witness:
  "\<exists>file_data end_offset others.
     decompress toy_env toy_dat = Some file_data
     \<and> wrapper_read toy_env file_data 0 (AOC, ()) = Inr (end_offset, [65] # others)"
proof -
  have "load_gamespec toy_env toy_world toy_dat (AOC, ()) None False =
          (Inr [65], snd (load_gamespec toy_env toy_world toy_dat (AOC, ()) None False))"
    by (simp add: toys loads)
  from returned_tree_origin [OF this] show ?thesis by simp
qed

subsection \<open>A failing cache write\<close>

text \<open>
  Claim C4 says that a failure to write the cache does not keep the decoded tree from
  the caller. It does: \<open>toy_dat\<close> decompresses and decodes to the tree \<open>[65]\<close>, the
  file \<open>corrupt\<close> cannot be opened for writing, and the call ends in the error.
\<close>

theorem failed_store_loses_tree:
  "decompress toy_env toy_dat = Some [65] \<and>
   wrapper_read toy_env [65] 0 (AOC, ()) = Inr (1, [[65]]) \<and>
   fst (load_gamespec toy_env toy_world toy_dat (AOC, ()) (Some ''corrupt'') False)
     = Inl PermissionError"
  by (simp add: toys loads)

text \<open>
  Claim C4, as the code has it: after a decode that succeeded, with a cache file name
  given, the tree is returned when \<open>open\<close> for writing and \<open>pickle.dump\<close> both succeed;
  when either fails, the call ends in that error and returns no tree.
\<close>

theorem store_decides_result:
  assumes "decompress env fileobj = Some file_data"
    and "wrapper_read env file_data 0 gv = Inr (end_offset, gamespec0 # others)"
    and "n \<noteq> []"
    and "\<not> load_cache \<or> files w n = Missing
         \<or> (\<exists>c. files w n = Content c \<and> pickle_load env c = None)"
  shows "fst (load_gamespec env w fileobj gv (Some n) load_cache) =
           (if \<not> writable w n then Inl PermissionError
            else if pickle_dump env gamespec0 = None then Inl PicklingError
            else Inr gamespec0)"
  using assms by (auto simp: loads split: option.splits)

theorem store_decides_result_witness:
  "fst (load_gamespec toy_env toy_world toy_dat (AOC, ()) (Some ''new'') False) = Inr [65] \<and>
   files (snd (load_gamespec toy_env toy_world toy_dat (AOC, ()) (Some ''new'') False)) ''new''
     = Content [128, 65]"
proof -
  have a: "decompress toy_env toy_dat = Some [65]" by (simp add: toys)
  have b: "wrapper_read toy_env [65] 0 (AOC, ()) = Inr (1, [65] # [])" by (simp add: toys)
  have c: "''new'' \<noteq> []" by simp
  have d: "\<not> False \<or> files toy_world ''new'' = Missing
           \<or> (\<exists>c. files toy_world ''new'' = Content c \<and> pickle_load toy_env c = None)"
    by simp
  have e: "writable toy_world ''new''" "pickle_dump toy_env [65] \<noteq> None"
    by (simp_all add: toys)
  have f: "files (snd (load_gamespec toy_env toy_world toy_dat (AOC, ()) (Some ''new'') False))
             ''new'' = Content [128, 65]"
    by (simp add: toys loads)
  from store_decides_result [OF a b c d] e f show ?thesis by simp
qed

subsection \<open>A cache hit\<close>

text \<open>
  Claim C5: whenever a cache file name is given, the cache is consulted before any
  decoding, and on a hit the cached tree is returned with no decoding. The docstring of
  the function says the same: if the name is given, the file is consulted before the
  load. The code does otherwise when \<open>load_cache\<close> is left at its default, false: the
  file \<open>good\<close> holds the tree \<open>[7]\<close> and would unpickle, yet it is not read; the bytes
  are decompressed and decoded, the tree \<open>[65]\<close> is returned, and the cache file is
  overwritten with it.
\<close>

theorem cache_not_consulted:
  "files toy_world ''good'' = Content [128, 7] \<and>
   pickle_load toy_env [128, 7] = Some [7] \<and>
   fst (load_gamespec toy_env toy_world toy_dat (AOC, ()) (Some ''good'') False) = Inr [65] \<and>
   logged (snd (load_gamespec toy_env toy_world toy_dat (AOC, ()) (Some ''good'') False)) =
     [(DBG, ''reading dat file'', NoArg),
      (DBG, ''decompressing dat file'', NoArg),
      (SPAM, ''length of decompressed data: %d'', IntArg 1),
      (DBG, ''dumping dat file contents to cache file: %s'', StrArg ''good'')] \<and>
   files (snd (load_gamespec toy_env toy_world toy_dat (AOC, ()) (Some ''good'') False)) ''good''
     = Content [128, 65]"
  by (simp add: toys loads)

text \<open>
  The same holds of every call with \<open>load_cache\<close> false: the lookup is skipped, whatever
  the cache file holds.
\<close>

lemma load_cache_false_skips_lookup:
  "load_gamespec env w fileobj gv cachefile_name False =
     decode_and_store env w fileobj gv cachefile_name"
  by (simp add: load_gamespec_def)

text \<open>
  With \<open>load_cache\<close> true the function does what its docstring says: a cache file that
  unpickles is returned at once, the only effect being the log line.
\<close>

lemma cache_hit_returns_cached:
  assumes "n \<noteq> []" and "files w n = Content cachefile"
    and "pickle_load env cachefile = Some wrapper"
  shows "load_gamespec env w fileobj gv (Some n) True =
           (Inr wrapper,
            w\<lparr>logged := logged w @ [(INFO, ''using cached wrapper: %s'', StrArg n)]\<rparr>)"
  using assms by (simp add: loads)

lemma cache_hit_at_good:
  "load_gamespec toy_env toy_world toy_dat (AOC, ()) (Some ''good'') True =
     (Inr [7],
      toy_world\<lparr>logged := logged toy_world
                   @ [(INFO, ''using cached wrapper: %s'', StrArg ''good'')]\<rparr>)"
proof -
  have a: "''good'' \<noteq> []" by simp
  have b: "files toy_world ''good'' = Content [128, 7]" by (simp add: toys)
  have c: "pickle_load toy_env [128, 7] = Some [7]" by (simp add: toys)
  show ?thesis by (rule cache_hit_returns_cached [OF a b c])
qed

end
